theory Spec2Isabelle
  imports Main
begin

section \<open>Authentication and session tokens of the Tessiture back end\<close>

text \<open>
  The development embeds \<^verbatim>\<open>Utils/token.utils.js\<close>, \<^verbatim>\<open>Service/Auth.service.js\<close>,
  \<^verbatim>\<open>Repository/Auth.repository.js\<close>, \<^verbatim>\<open>Controller/Auth.controller.js\<close> and
  \<^verbatim>\<open>Middleware/errorHandler.js\<close>. Every operation is a function from the state of the
  \<^verbatim>\<open>User\<close> table to a result and the new state; a \<^verbatim>\<open>throw\<close> is the left summand of
  the result. The clock is read once per operation, in whole seconds, and is an argument
  \<open>now\<close>. The two diagnostic \<^verbatim>\<open>console.log\<close> calls of the token utilities write to
  the process output only and are left out.
\<close>

subsection \<open>Thrown values\<close>

text \<open>
  The code throws \<^verbatim>\<open>new Error(msg)\<close> only. The run time adds \<^verbatim>\<open>ReferenceError\<close> and,
  for a status code that is none, \<^verbatim>\<open>RangeError\<close>; the \<^verbatim>\<open>jsonwebtoken\<close> package adds its
  two error classes; and the error handler documents thrown objects of the form
  \<^verbatim>\<open>{ statusCode, message }\<close>, which is \<open>Thrown\<close>. Only \<open>Thrown\<close> has a status code.
\<close>

datatype error =
    Error string
  | ReferenceError string
  | JsonWebTokenError string
  | TokenExpiredError string
  | RangeError string
  | Thrown nat string

fun statusCode :: "error \<Rightarrow> nat option" where
  "statusCode (Thrown c m) = Some c"
| "statusCode (Error m) = None"
| "statusCode (ReferenceError m) = None"
| "statusCode (JsonWebTokenError m) = None"
| "statusCode (TokenExpiredError m) = None"
| "statusCode (RangeError m) = None"

fun message :: "error \<Rightarrow> string" where
  "message (Thrown c m) = m"
| "message (Error m) = m"
| "message (ReferenceError m) = m"
| "message (JsonWebTokenError m) = m"
| "message (TokenExpiredError m) = m"
| "message (RangeError m) = m"

subsection \<open>The \<^verbatim>\<open>jsonwebtoken\<close> package, symbolically\<close>

text \<open>
  \<^verbatim>\<open>jsonwebtoken\<close> is an external package. A compact token is modelled by what determines
  it: the claims the caller passed, the \<^verbatim>\<open>iat\<close> and \<^verbatim>\<open>exp\<close> stamps in seconds and the
  HMAC key. Signing with HS256 draws no randomness, so two calls with the same claims, key
  and clock second give the same token. Any other string a client may present is
  \<open>Malformed\<close>.
\<close>

datatype claim = CNum nat | CStr string

datatype token =
    Jwt "(string \<times> claim) list" nat nat string
  | Malformed string

fun token_claims :: "token \<Rightarrow> (string \<times> claim) list" where
  "token_claims (Jwt p i e k) = p"
| "token_claims (Malformed s) = []"

fun token_iat :: "token \<Rightarrow> nat option" where
  "token_iat (Jwt p i e k) = Some i"
| "token_iat (Malformed s) = None"

fun token_exp :: "token \<Rightarrow> nat option" where
  "token_exp (Jwt p i e k) = Some e"
| "token_exp (Malformed s) = None"

fun token_key :: "token \<Rightarrow> string option" where
  "token_key (Jwt p i e k) = Some k"
| "token_key (Malformed s) = None"

text \<open>The user id a token carries in its \<^verbatim>\<open>id\<close> claim.\<close>

fun token_subject :: "token \<Rightarrow> nat option" where
  "token_subject (Jwt p i e k) =
     (case map_of p ''id'' of Some (CNum n) \<Rightarrow> Some n | _ \<Rightarrow> None)"
| "token_subject (Malformed s) = None"

text \<open>
  The time spans of the \<^verbatim>\<open>ms\<close> package that \<^verbatim>\<open>expiresIn\<close> goes through: decimal digits
  and a unit letter, in seconds.
\<close>

definition is_digit :: "char \<Rightarrow> bool" where
  "is_digit c = (48 \<le> (of_char c :: nat) \<and> (of_char c :: nat) \<le> 57)"

definition digit_value :: "char \<Rightarrow> nat" where
  "digit_value c = (of_char c :: nat) - 48"

definition unit_seconds :: "string \<Rightarrow> nat option" where
  "unit_seconds u =
     (if u = ''s'' then Some 1
      else if u = ''m'' then Some 60
      else if u = ''h'' then Some 3600
      else if u = ''d'' then Some 86400
      else if u = ''w'' then Some 604800
      else None)"

definition timespan :: "string \<Rightarrow> nat option" where
  "timespan s =
     (let ds = takeWhile is_digit s; u = dropWhile is_digit s
      in if ds = [] then None
         else map_option (\<lambda>k. foldl (\<lambda>a c. 10 * a + digit_value c) 0 ds * k)
                (unit_seconds u))"

text \<open>
  \<^verbatim>\<open>jwt.sign(payload, secret, { expiresIn })\<close>: a missing or empty secret is an error, the
  stamp is the clock second, the expiry the stamp plus the span.
\<close>

definition jwt_sign ::
  "(string \<times> claim) list \<Rightarrow> string option \<Rightarrow> string \<Rightarrow> nat \<Rightarrow> error + token" where
  "jwt_sign payload secretOrPrivateKey expiresIn now =
     (case secretOrPrivateKey of
        None \<Rightarrow> Inl (Error ''secretOrPrivateKey must have a value'')
      | Some k \<Rightarrow>
          if k = [] then Inl (Error ''secretOrPrivateKey must have a value'')
          else (case timespan expiresIn of
                  None \<Rightarrow> Inl (Error ''expiresIn should be a number of seconds or a timespan'')
                | Some d \<Rightarrow> Inr (Jwt payload now (now + d) k)))"

text \<open>
  \<^verbatim>\<open>jwt.verify(token, secret)\<close>: the shape of the token, then the key, then the
  signature, then \<^verbatim>\<open>clockTimestamp >= payload.exp\<close>. It returns the claims.
\<close>

fun jwt_verify :: "token \<Rightarrow> string option \<Rightarrow> nat \<Rightarrow> error + (string \<times> claim) list" where
  "jwt_verify (Malformed s) secretOrPublicKey now =
     (if s = [] then Inl (JsonWebTokenError ''jwt must be provided'')
      else Inl (JsonWebTokenError ''jwt malformed''))"
| "jwt_verify (Jwt p i e k) secretOrPublicKey now =
     (case secretOrPublicKey of
        None \<Rightarrow> Inl (JsonWebTokenError ''secret or public key must be provided'')
      | Some s \<Rightarrow>
          if s = [] then Inl (JsonWebTokenError ''secret or public key must be provided'')
          else if k \<noteq> s then Inl (JsonWebTokenError ''invalid signature'')
          else if e \<le> now then Inl (TokenExpiredError ''jwt expired'')
          else Inr p)"

subsection \<open>Configuration and \<^verbatim>\<open>bcryptjs\<close>\<close>

text \<open>\<^verbatim>\<open>process.env\<close>: a variable that is not set reads as \<^verbatim>\<open>undefined\<close>.\<close>

record process_env =
  JWT_SECRET :: "string option"
  JWT_REFRESH_SECRET :: "string option"

text \<open>
  \<^verbatim>\<open>bcryptjs\<close> is an external package and stays a parameter: \<open>bcrypt_hash password rounds
  salt\<close> with the salt the package draws, and \<open>bcrypt_compare password hash\<close>.
\<close>

record bcryptjs =
  bcrypt_hash :: "string \<Rightarrow> nat \<Rightarrow> string \<Rightarrow> string"
  bcrypt_compare :: "string \<Rightarrow> string \<Rightarrow> bool"

subsection \<open>The \<^verbatim>\<open>User\<close> table\<close>

record user =
  user_id :: nat
  user_email :: string
  user_password :: string
  user_rolId :: nat
  user_refreshToken :: "token option"

text \<open>
  The rows in the order a \<^verbatim>\<open>SELECT\<close> returns them, and the next insert id. A
  \<^verbatim>\<open>WHERE column = ?\<close> is an exact match, and never matches a \<^verbatim>\<open>NULL\<close> slot.
\<close>

record db =
  User :: "user list"
  AUTO_INCREMENT :: nat

text \<open>\<^verbatim>\<open>String.prototype.toLowerCase\<close> on the ASCII letters.\<close>

definition lower_char :: "char \<Rightarrow> char" where
  "lower_char c =
     (case map_of (zip ''ABCDEFGHIJKLMNOPQRSTUVWXYZ'' ''abcdefghijklmnopqrstuvwxyz'') c of
        Some l \<Rightarrow> l
      | None \<Rightarrow> c)"

definition toLowerCase :: "string \<Rightarrow> string" where
  "toLowerCase s = map lower_char s"

subsection \<open>\<^verbatim>\<open>Utils/token.utils.js\<close>\<close>

definition generateAccessToken :: "process_env \<Rightarrow> nat \<Rightarrow> user \<Rightarrow> error + token" where
  "generateAccessToken env now u =
     jwt_sign
       [(''id'', CNum (user_id u)), (''email'', CStr (user_email u)),
        (''rolId'', CNum (user_rolId u))]
       (JWT_SECRET env) ''15m'' now"

definition generateRefreshToken :: "process_env \<Rightarrow> nat \<Rightarrow> user \<Rightarrow> error + token" where
  "generateRefreshToken env now u =
     jwt_sign
       [(''id'', CNum (user_id u)), (''email'', CStr (user_email u))]
       (JWT_REFRESH_SECRET env) ''7d'' now"

subsection \<open>\<^verbatim>\<open>Repository/Auth.repository.js\<close>\<close>

definition findByEmail :: "db \<Rightarrow> string \<Rightarrow> user option" where
  "findByEmail d email = find (\<lambda>u. user_email u = toLowerCase email) (User d)"

definition saveRefreshToken :: "db \<Rightarrow> nat \<Rightarrow> token \<Rightarrow> db" where
  "saveRefreshToken d userId t =
     d\<lparr>User := map (\<lambda>u. if user_id u = userId then u\<lparr>user_refreshToken := Some t\<rparr> else u)
                 (User d)\<rparr>"

definition findUserByRefreshToken :: "db \<Rightarrow> token \<Rightarrow> user option" where
  "findUserByRefreshToken d t = find (\<lambda>u. user_refreshToken u = Some t) (User d)"

definition clearRefreshToken :: "db \<Rightarrow> nat \<Rightarrow> db" where
  "clearRefreshToken d userId =
     d\<lparr>User := map (\<lambda>u. if user_id u = userId then u\<lparr>user_refreshToken := None\<rparr> else u)
                 (User d)\<rparr>"

subsection \<open>\<^verbatim>\<open>Service/Auth.service.js\<close>\<close>

text \<open>
  The names the module binds with \<^verbatim>\<open>require\<close>. \<^verbatim>\<open>register\<close> evaluates the free
  identifier \<^verbatim>\<open>pool\<close>, which is not among them and is no global of the run time, so the
  evaluation throws \<^verbatim>\<open>ReferenceError\<close> before the arguments of \<^verbatim>\<open>pool.query\<close> are
  evaluated.
\<close>

definition AuthService_requires :: "string list" where
  "AuthService_requires =
     [''bcrypt'', ''jwt'', ''generateAccessToken'', ''generateRefreshToken'']"

text \<open>\<^verbatim>\<open>INSERT INTO User (email, password, rolId)\<close>: the slot column takes its default.\<close>

definition INSERT_User :: "db \<Rightarrow> string \<Rightarrow> string \<Rightarrow> nat \<Rightarrow> nat \<times> db" where
  "INSERT_User d e h r =
     (AUTO_INCREMENT d,
      d\<lparr>User := User d @
           [\<lparr>user_id = AUTO_INCREMENT d, user_email = e, user_password = h,
             user_rolId = r, user_refreshToken = None\<rparr>],
        AUTO_INCREMENT := Suc (AUTO_INCREMENT d)\<rparr>)"

record register_body =
  body_email :: string
  body_password :: string
  body_rolId :: "nat option"

text \<open>\<^verbatim>\<open>rolId || 1\<close>: a missing or zero role becomes 1.\<close>

definition rolId_or_1 :: "nat option \<Rightarrow> nat" where
  "rolId_or_1 r = (case r of None \<Rightarrow> 1 | Some n \<Rightarrow> if n = 0 then 1 else n)"

definition AuthService_register ::
  "bcryptjs \<Rightarrow> string \<Rightarrow> db \<Rightarrow> register_body \<Rightarrow> (error + nat \<times> string) \<times> db" where
  "AuthService_register bc salt d b =
     (case findByEmail d (body_email b) of
        Some existingUser \<Rightarrow> (Inl (Error ''Email already in use''), d)
      | None \<Rightarrow>
          let hashedPassword = bcrypt_hash bc (body_password b) 10 salt
          in if ''pool'' \<notin> set AuthService_requires
             then (Inl (ReferenceError ''pool is not defined''), d)
             else (case INSERT_User d (toLowerCase (body_email b)) hashedPassword
                          (rolId_or_1 (body_rolId b)) of
                     (insertId, d') \<Rightarrow> (Inr (insertId, body_email b), d')))"

record token_pair =
  accessToken :: token
  refreshToken :: token

record login_data = token_pair +
  login_message :: string
  login_user :: "nat \<times> string \<times> nat"

definition AuthService_login ::
  "process_env \<Rightarrow> bcryptjs \<Rightarrow> nat \<Rightarrow> db \<Rightarrow> string \<Rightarrow> string \<Rightarrow> (error + login_data) \<times> db" where
  "AuthService_login env bc now d email password =
     (case findByEmail d email of
        None \<Rightarrow> (Inl (Error ''Invalid credentials''), d)
      | Some u \<Rightarrow>
          if \<not> bcrypt_compare bc password (user_password u)
          then (Inl (Error ''Invalid credentials''), d)
          else (case generateAccessToken env now u of
                  Inl e \<Rightarrow> (Inl e, d)
                | Inr a \<Rightarrow>
                    (case generateRefreshToken env now u of
                       Inl e \<Rightarrow> (Inl e, d)
                     | Inr r \<Rightarrow>
                         (Inr \<lparr>accessToken = a, refreshToken = r,
                               login_message = ''Login successful'',
                               login_user = (user_id u, user_email u, user_rolId u)\<rparr>,
                          saveRefreshToken d (user_id u) r))))"

definition AuthService_refreshToken ::
  "process_env \<Rightarrow> nat \<Rightarrow> db \<Rightarrow> token \<Rightarrow> (error + token_pair) \<times> db" where
  "AuthService_refreshToken env now d oldToken =
     (case findUserByRefreshToken d oldToken of
        None \<Rightarrow> (Inl (Error ''Invalid refresh token''), d)
      | Some u \<Rightarrow>
          (case jwt_verify oldToken (JWT_REFRESH_SECRET env) now of
             Inl e \<Rightarrow> (Inl e, d)
           | Inr claims \<Rightarrow>
               (case generateAccessToken env now u of
                  Inl e \<Rightarrow> (Inl e, d)
                | Inr a \<Rightarrow>
                    (case generateRefreshToken env now u of
                       Inl e \<Rightarrow> (Inl e, d)
                     | Inr r \<Rightarrow>
                         (Inr \<lparr>accessToken = a, refreshToken = r\<rparr>,
                          saveRefreshToken d (user_id u) r)))))"

definition AuthService_logout :: "db \<Rightarrow> nat \<Rightarrow> string \<times> db" where
  "AuthService_logout d userId = (''Logged out successfully'', clearRefreshToken d userId)"

subsection \<open>\<^verbatim>\<open>Controller/Auth.controller.js\<close> and \<^verbatim>\<open>Middleware/errorHandler.js\<close>\<close>

datatype json =
    JNum nat
  | JStr string
  | JTok token
  | JObj "(string \<times> json) list"

text \<open>
  What the server writes for a request: the status and the body, which is a JSON value, or
  nothing, or the page of Express's own final handler.
\<close>

datatype body = Json json | No_body | Error_page

record response =
  res_status :: nat
  res_body :: body

text \<open>
  \<^verbatim>\<open>res.status(c).json(b)\<close>, as Express and the run time carry it out. A code below 100 or
  above 999 is no status code: the call throws \<^verbatim>\<open>RangeError\<close> and nothing is written. The
  statuses 1xx, 204 and 304, and 205 from Express 4.18 on, are written without a body.
\<close>

definition send_json :: "nat \<Rightarrow> json \<Rightarrow> error + response" where
  "send_json c b =
     (if c < 100 \<or> 999 < c then Inl (RangeError ''Invalid status code'')
      else if c < 200 \<or> c = 204 \<or> c = 205 \<or> c = 304
      then Inr \<lparr>res_status = c, res_body = No_body\<rparr>
      else Inr \<lparr>res_status = c, res_body = Json b\<rparr>)"

text \<open>
  The same call in \<open>errorHandler\<close>, the last handler \<^verbatim>\<open>app.js\<close> registers: what it throws
  reaches Express's final handler, which finds no error status on the thrown value or on
  the response and answers 500 with its own page.
\<close>

definition send_json_last :: "nat \<Rightarrow> json \<Rightarrow> response" where
  "send_json_last c b =
     (case send_json c b of
        Inr r \<Rightarrow> r
      | Inl thrown \<Rightarrow> \<lparr>res_status = 500, res_body = Error_page\<rparr>)"

text \<open>
  \<^verbatim>\<open>if (err.statusCode)\<close> is taken by a status code that is present and not zero; every
  other thrown value is answered with 500 and a fixed message.
\<close>

definition errorHandler :: "error \<Rightarrow> response" where
  "errorHandler err =
     (case statusCode err of
        Some c \<Rightarrow>
          if c \<noteq> 0
          then send_json_last c
                 (JObj [(''status'', JStr ''error''), (''message'', JStr (message err))])
          else send_json_last 500
                 (JObj [(''status'', JStr ''error''),
                        (''message'', JStr ''Internal Server Error'')])
      | None \<Rightarrow>
          send_json_last 500
            (JObj [(''status'', JStr ''error''),
                   (''message'', JStr ''Internal Server Error'')]))"

text \<open>
  Each controller method answers the service's result inside \<^verbatim>\<open>try\<close>, and hands a thrown
  value to \<^verbatim>\<open>next\<close>, which the application routes to \<open>errorHandler\<close>.
\<close>

definition AuthController_register ::
  "bcryptjs \<Rightarrow> string \<Rightarrow> db \<Rightarrow> register_body \<Rightarrow> response \<times> db" where
  "AuthController_register bc salt d b =
     (case AuthService_register bc salt d b of
        (Inr (i, e), d') \<Rightarrow>
          (case send_json 201 (JObj [(''id'', JNum i), (''email'', JStr e)]) of
             Inr r \<Rightarrow> (r, d')
           | Inl err \<Rightarrow> (errorHandler err, d'))
      | (Inl err, d') \<Rightarrow> (errorHandler err, d'))"

definition AuthController_login ::
  "process_env \<Rightarrow> bcryptjs \<Rightarrow> nat \<Rightarrow> db \<Rightarrow> string \<Rightarrow> string \<Rightarrow> response \<times> db" where
  "AuthController_login env bc now d email password =
     (case AuthService_login env bc now d email password of
        (Inr data, d') \<Rightarrow>
          (case send_json 200
                  (JObj [(''message'', JStr (login_message data)),
                         (''accessToken'', JTok (accessToken data)),
                         (''refreshToken'', JTok (refreshToken data)),
                         (''user'',
                          (case login_user data of
                             (i, e, r) \<Rightarrow>
                               JObj [(''id'', JNum i), (''email'', JStr e),
                                     (''rolId'', JNum r)]))]) of
             Inr r \<Rightarrow> (r, d')
           | Inl err \<Rightarrow> (errorHandler err, d'))
      | (Inl err, d') \<Rightarrow> (errorHandler err, d'))"

definition AuthController_refresh ::
  "process_env \<Rightarrow> nat \<Rightarrow> db \<Rightarrow> token \<Rightarrow> response \<times> db" where
  "AuthController_refresh env now d t =
     (case AuthService_refreshToken env now d t of
        (Inr tokens, d') \<Rightarrow>
          (case send_json 200
                  (JObj [(''accessToken'', JTok (accessToken tokens)),
                         (''refreshToken'', JTok (refreshToken tokens))]) of
             Inr r \<Rightarrow> (r, d')
           | Inl err \<Rightarrow> (errorHandler err, d'))
      | (Inl err, d') \<Rightarrow> (errorHandler err, d'))"

text \<open>\<^verbatim>\<open>req.user.id\<close> is the id the bearer-token middleware has put on the request.\<close>

definition AuthController_logout :: "db \<Rightarrow> nat \<Rightarrow> response \<times> db" where
  "AuthController_logout d userId =
     (case AuthService_logout d userId of
        (m, d') \<Rightarrow>
          (case send_json 200 (JObj [(''message'', JStr ''Logged out successfully'')]) of
             Inr r \<Rightarrow> (r, d')
           | Inl err \<Rightarrow> (errorHandler err, d')))"

subsection \<open>\<^verbatim>\<open>Routes/index.js\<close>\<close>

text \<open>
  The routers of the repository, and the ones \<^verbatim>\<open>applyRoutes\<close> mounts, each under its
  path. The router of \<^verbatim>\<open>Routes/Auth.route.js\<close>, which binds the four controller methods
  above, is not required there.
\<close>

datatype router =
    Role_route
  | Status_route
  | Category_route
  | User_route
  | Article_route
  | Logs_route
  | Author_route
  | Podcast_route
  | Book_route
  | Auth_route

definition applyRoutes :: "(string \<times> router) list" where
  "applyRoutes =
     [(''/api/v1/roles'', Role_route),
      (''/api/v1/status'', Status_route),
      (''/api/v1/categories'', Category_route),
      (''/api/v1/users'', User_route),
      (''/api/v1/articles'', Article_route),
      (''/api/v1/logs'', Logs_route),
      (''/api/v1/authors'', Author_route),
      (''/api/v1/podcasts'', Podcast_route),
      (''/api/v1/books'', Book_route)]"

subsection \<open>The state the operations keep\<close>

text \<open>
  Every refresh token in a slot carries the id of the row that holds it. The tokens
  \<open>generateRefreshToken\<close> makes for a row carry that row's id, and the service stores
  no other token, so the operations keep this property.
\<close>

definition slot_owned :: "user \<Rightarrow> bool" where
  "slot_owned u =
     (case user_refreshToken u of
        None \<Rightarrow> True
      | Some t \<Rightarrow> token_subject t = Some (user_id u))"

definition slots_owned :: "db \<Rightarrow> bool" where
  "slots_owned d = list_all slot_owned (User d)"

subsection \<open>A sample configuration and table\<close>

definition sample_env :: process_env where
  "sample_env = \<lparr>JWT_SECRET = Some ''access-key'', JWT_REFRESH_SECRET = Some ''refresh-key''\<rparr>"

definition sample_bcrypt :: bcryptjs where
  "sample_bcrypt =
     \<lparr>bcrypt_hash = (\<lambda>p r s. s @ p), bcrypt_compare = (\<lambda>p h. drop 2 h = p)\<rparr>"

definition alice :: user where
  "alice = \<lparr>user_id = 1, user_email = ''a@b.com'', user_password = ''xxpw123456'',
            user_rolId = 1, user_refreshToken = None\<rparr>"

definition bob :: user where
  "bob = \<lparr>user_id = 2, user_email = ''bob@b.com'', user_password = ''yysecret'',
          user_rolId = 2, user_refreshToken = None\<rparr>"

definition sample_db :: db where
  "sample_db = \<lparr>User = [alice, bob], AUTO_INCREMENT = 3\<rparr>"

text \<open>The tokens a login of \<open>alice\<close> at second 1000 issues, and the table after it.\<close>

definition alice_access :: token where
  "alice_access =
     Jwt [(''id'', CNum 1), (''email'', CStr ''a@b.com''), (''rolId'', CNum 1)]
       1000 1900 ''access-key''"

definition alice_refresh :: token where
  "alice_refresh =
     Jwt [(''id'', CNum 1), (''email'', CStr ''a@b.com'')] 1000 605800 ''refresh-key''"

definition sample_db_logged_in :: db where
  "sample_db_logged_in =
     \<lparr>User = [alice\<lparr>user_refreshToken := Some alice_refresh\<rparr>, bob], AUTO_INCREMENT = 3\<rparr>"

text \<open>The tokens a refresh one second later issues, and the table after it.\<close>

definition alice_access_rotated :: token where
  "alice_access_rotated =
     Jwt [(''id'', CNum 1), (''email'', CStr ''a@b.com''), (''rolId'', CNum 1)]
       1001 1901 ''access-key''"

definition alice_refresh_rotated :: token where
  "alice_refresh_rotated =
     Jwt [(''id'', CNum 1), (''email'', CStr ''a@b.com'')] 1001 605801 ''refresh-key''"

definition sample_db_rotated :: db where
  "sample_db_rotated =
     \<lparr>User = [alice\<lparr>user_refreshToken := Some alice_refresh_rotated\<rparr>, bob],
      AUTO_INCREMENT = 3\<rparr>"

definition empty_db :: db where
  "empty_db = \<lparr>User = [], AUTO_INCREMENT = 1\<rparr>"

text \<open>The answer of \<open>errorHandler\<close> to a thrown value without a status code.\<close>

definition internal_server_error :: response where
  "internal_server_error =
     \<lparr>res_status = 500,
      res_body = Json (JObj [(''status'', JStr ''error''),
                             (''message'', JStr ''Internal Server Error'')])\<rparr>"

section \<open>Facts about the model\<close>

lemmas sample_defs = sample_env_def sample_bcrypt_def alice_def bob_def sample_db_def
  alice_access_def alice_refresh_def sample_db_logged_in_def

lemmas rotated_defs = alice_access_rotated_def alice_refresh_rotated_def sample_db_rotated_def

lemma timespan_15m: "timespan ''15m'' = Some 900"
  by (simp add: timespan_def is_digit_def digit_value_def unit_seconds_def)

lemma timespan_7d: "timespan ''7d'' = Some 604800"
  by (simp add: timespan_def is_digit_def digit_value_def unit_seconds_def)

lemma generateRefreshToken_Inr:
  "generateRefreshToken env now u = Inr r \<Longrightarrow>
     \<exists>k. JWT_REFRESH_SECRET env = Some k \<and> k \<noteq> [] \<and>
         r = Jwt [(''id'', CNum (user_id u)), (''email'', CStr (user_email u))]
               now (now + 604800) k"
  by (auto simp: generateRefreshToken_def jwt_sign_def timespan_7d
        split: option.splits if_splits)

lemma generateAccessToken_Inr:
  "generateAccessToken env now u = Inr a \<Longrightarrow>
     \<exists>k. JWT_SECRET env = Some k \<and> k \<noteq> [] \<and>
         a = Jwt [(''id'', CNum (user_id u)), (''email'', CStr (user_email u)),
                  (''rolId'', CNum (user_rolId u))] now (now + 900) k"
  by (auto simp: generateAccessToken_def jwt_sign_def timespan_15m
        split: option.splits if_splits)

lemma generateRefreshToken_subject:
  "generateRefreshToken env now u = Inr r \<Longrightarrow> token_subject r = Some (user_id u)"
  by (auto dest: generateRefreshToken_Inr)

lemma User_saveRefreshToken:
  "User (saveRefreshToken d i t) =
     map (\<lambda>u. if user_id u = i then u\<lparr>user_refreshToken := Some t\<rparr> else u) (User d)"
  by (simp add: saveRefreshToken_def)

lemma User_clearRefreshToken:
  "User (clearRefreshToken d i) =
     map (\<lambda>u. if user_id u = i then u\<lparr>user_refreshToken := None\<rparr> else u) (User d)"
  by (simp add: clearRefreshToken_def)

lemma findUserByRefreshToken_None_iff:
  "findUserByRefreshToken d t = None \<longleftrightarrow>
     (\<forall>u \<in> set (User d). user_refreshToken u \<noteq> Some t)"
  by (auto simp: findUserByRefreshToken_def find_None_iff)

lemma findUserByRefreshToken_Some:
  "findUserByRefreshToken d t = Some u \<Longrightarrow>
     u \<in> set (User d) \<and> user_refreshToken u = Some t"
  by (auto simp: findUserByRefreshToken_def find_Some_iff)

lemma findByEmail_Some:
  "findByEmail d e = Some u \<Longrightarrow> u \<in> set (User d) \<and> user_email u = toLowerCase e"
  by (auto simp: findByEmail_def find_Some_iff)

lemma findByEmail_None_iff:
  "findByEmail d e = None \<longleftrightarrow> (\<forall>u \<in> set (User d). user_email u \<noteq> toLowerCase e)"
  by (auto simp: findByEmail_def find_None_iff)

subsection \<open>Clearing a slot\<close>

lemma clear_twice:
  "clearRefreshToken (clearRefreshToken d i) i = clearRefreshToken d i"
proof -
  have "map (\<lambda>u. if user_id u = i then u\<lparr>user_refreshToken := None\<rparr> else u)
          (map (\<lambda>u. if user_id u = i then u\<lparr>user_refreshToken := None\<rparr> else u) xs) =
        map (\<lambda>u. if user_id u = i then u\<lparr>user_refreshToken := None\<rparr> else u) xs" for xs
    by (induction xs) auto
  then show ?thesis by (simp add: clearRefreshToken_def)
qed

lemma clear_absent:
  assumes "\<forall>u \<in> set (User d). user_id u \<noteq> i"
  shows "clearRefreshToken d i = d"
proof -
  have "map (\<lambda>u. if user_id u = i then u\<lparr>user_refreshToken := None\<rparr> else u) (User d) =
        User d"
    using assms by (intro map_idI) simp
  then show ?thesis by (simp add: clearRefreshToken_def)
qed

lemma cleared_slots:
  assumes "u \<in> set (User (clearRefreshToken d i))" and "user_id u = i"
  shows "user_refreshToken u = None"
proof -
  from assms(1)
  have "u \<in> (\<lambda>v. if user_id v = i then v\<lparr>user_refreshToken := None\<rparr> else v) ` set (User d)"
    by (simp only: User_clearRefreshToken set_map)
  then obtain v where u: "u = (if user_id v = i then v\<lparr>user_refreshToken := None\<rparr> else v)"
    by (rule imageE)
  show ?thesis
  proof (cases "user_id v = i")
    case True
    with u show ?thesis by simp
  next
    case False
    with u assms(2) show ?thesis by simp
  qed
qed

subsection \<open>Slots hold their owner's tokens\<close>

lemma slots_owned_holder:
  "slots_owned d \<Longrightarrow> u \<in> set (User d) \<Longrightarrow> user_refreshToken u = Some t \<Longrightarrow>
     token_subject t = Some (user_id u)"
  by (auto simp: slots_owned_def list_all_iff slot_owned_def)

lemma slots_owned_saveRefreshToken:
  "slots_owned d \<Longrightarrow> token_subject t = Some i \<Longrightarrow> slots_owned (saveRefreshToken d i t)"
  by (auto simp: slots_owned_def User_saveRefreshToken list_all_iff slot_owned_def)

lemma slots_owned_clearRefreshToken:
  "slots_owned d \<Longrightarrow> slots_owned (clearRefreshToken d i)"
  by (auto simp: slots_owned_def User_clearRefreshToken list_all_iff slot_owned_def)

lemma slots_owned_refreshToken:
  "slots_owned d \<Longrightarrow> slots_owned (snd (AuthService_refreshToken env now d t))"
  by (auto simp: AuthService_refreshToken_def slots_owned_saveRefreshToken
        generateRefreshToken_subject split: option.splits sum.splits)

lemma slots_owned_login:
  "slots_owned d \<Longrightarrow> slots_owned (snd (AuthService_login env bc now d e p))"
  by (auto simp: AuthService_login_def slots_owned_saveRefreshToken
        generateRefreshToken_subject split: option.splits sum.splits)

lemma slots_owned_logout:
  "slots_owned d \<Longrightarrow> slots_owned (snd (AuthService_logout d i))"
  by (simp add: AuthService_logout_def slots_owned_clearRefreshToken)

lemma register_state: "snd (AuthService_register bc salt d b) = d"
  by (simp add: AuthService_register_def AuthService_requires_def split: option.splits)

lemma filter_distinct_key:
  "distinct (map f xs) \<Longrightarrow> u \<in> set xs \<Longrightarrow> filter (\<lambda>r. f r = f u) xs = [u]"
proof (induction xs)
  case Nil
  then show ?case by simp
next
  case (Cons a xs)
  show ?case
  proof (cases "a = u")
    case True
    with Cons.prems(1) have "f u \<notin> f ` set xs" by simp
    then have "\<forall>r \<in> set xs. f r \<noteq> f u" by (metis image_eqI)
    then have "filter (\<lambda>r. f r = f u) xs = []" by (simp add: filter_empty_conv)
    with True show ?thesis by simp
  next
    case False
    with Cons.prems have u: "u \<in> set xs" and d: "distinct (map f xs)" by auto
    from Cons.prems(1) have "f a \<notin> f ` set xs" by simp
    with u have "f a \<noteq> f u" by (metis image_eqI)
    with Cons.IH [OF d u] show ?thesis by simp
  qed
qed

lemma slots_owned_empty:
  "\<forall>u \<in> set (User d). user_refreshToken u = None \<Longrightarrow> slots_owned d"
  by (simp add: slots_owned_def list_all_iff slot_owned_def)

subsection \<open>Saving a slot\<close>

lemma saved_row:
  assumes "u \<in> set (User d)" and "user_id u = i"
  shows "u\<lparr>user_refreshToken := Some t\<rparr> \<in> set (User (saveRefreshToken d i t))"
proof -
  have "(if user_id u = i then u\<lparr>user_refreshToken := Some t\<rparr> else u)
          \<in> (\<lambda>v. if user_id v = i then v\<lparr>user_refreshToken := Some t\<rparr> else v) ` set (User d)"
    using assms(1) by (rule imageI)
  moreover have "(if user_id u = i then u\<lparr>user_refreshToken := Some t\<rparr> else u) =
                 u\<lparr>user_refreshToken := Some t\<rparr>"
    using assms(2) by simp
  ultimately show ?thesis by (simp only: User_saveRefreshToken set_map)
qed

lemma saved_rows_cases:
  assumes "w \<in> set (User (saveRefreshToken d i t))"
  shows "(user_id w = i \<and> user_refreshToken w = Some t) \<or>
         (user_id w \<noteq> i \<and> w \<in> set (User d))"
proof -
  from assms
  have "w \<in> (\<lambda>v. if user_id v = i then v\<lparr>user_refreshToken := Some t\<rparr> else v) ` set (User d)"
    by (simp only: User_saveRefreshToken set_map)
  then obtain v where v: "v \<in> set (User d)"
    and w: "w = (if user_id v = i then v\<lparr>user_refreshToken := Some t\<rparr> else v)"
    by (rule imageE)
  show ?thesis
  proof (cases "user_id v = i")
    case True
    with w show ?thesis by simp
  next
    case False
    with w v show ?thesis by simp
  qed
qed

lemma refreshToken_Inr:
  assumes "AuthService_refreshToken env now d t = (Inr p, d')"
  obtains u where "findUserByRefreshToken d t = Some u"
    and "generateRefreshToken env now u = Inr (refreshToken p)"
    and "generateAccessToken env now u = Inr (accessToken p)"
    and "d' = saveRefreshToken d (user_id u) (refreshToken p)"
  using assms
  by (auto simp: AuthService_refreshToken_def split: option.splits sum.splits)

subsection \<open>The sample run\<close>

lemmas eval_defs = findByEmail_def findUserByRefreshToken_def saveRefreshToken_def
  clearRefreshToken_def toLowerCase_def lower_char_def generateAccessToken_def
  generateRefreshToken_def jwt_sign_def timespan_15m timespan_7d

lemma login_sample:
  "AuthService_login sample_env sample_bcrypt 1000 sample_db ''a@b.com'' ''pw123456'' =
     (Inr \<lparr>accessToken = alice_access, refreshToken = alice_refresh,
           login_message = ''Login successful'', login_user = (1, ''a@b.com'', 1)\<rparr>,
      sample_db_logged_in)"
  by (simp add: AuthService_login_def eval_defs sample_defs)

lemma refresh_same_second:
  "AuthService_refreshToken sample_env 1000 sample_db_logged_in alice_refresh =
     (Inr \<lparr>accessToken = alice_access, refreshToken = alice_refresh\<rparr>, sample_db_logged_in)"
  by (simp add: AuthService_refreshToken_def eval_defs sample_defs)

lemma refresh_next_second:
  "AuthService_refreshToken sample_env 1001 sample_db_logged_in alice_refresh =
     (Inr \<lparr>accessToken = alice_access_rotated, refreshToken = alice_refresh_rotated\<rparr>,
      sample_db_rotated)"
  by (simp add: AuthService_refreshToken_def eval_defs sample_defs rotated_defs)

lemma slots_owned_sample: "slots_owned sample_db_logged_in"
  by (simp add: slots_owned_def slot_owned_def sample_defs)

lemma findByEmail_sample_unknown: "findByEmail sample_db ''nobody@b.com'' = None"
  by (simp add: findByEmail_def toLowerCase_def lower_char_def sample_defs)

lemma findByEmail_sample_known: "findByEmail sample_db ''A@B.com'' = Some alice"
  by (simp add: findByEmail_def toLowerCase_def lower_char_def sample_defs)

section \<open>The claims\<close>

subsection \<open>Logout\<close>

text \<open>
  C9. For every user id, \<open>logout\<close> reports success, also when no row has that id (then the
  table is left as it was); a second \<open>logout\<close> with the same id gives the same answer and
  the same table; and after it every row with that id has an empty slot.
\<close>

theorem logout_idempotent:
  "fst (AuthService_logout d i) = ''Logged out successfully'' \<and>
   AuthService_logout (snd (AuthService_logout d i)) i = AuthService_logout d i \<and>
   (\<forall>u \<in> set (User (snd (AuthService_logout d i))).
      user_id u = i \<longrightarrow> user_refreshToken u = None) \<and>
   ((\<forall>u \<in> set (User d). user_id u \<noteq> i) \<longrightarrow> snd (AuthService_logout d i) = d)"
proof -
  have 1: "fst (AuthService_logout d i) = ''Logged out successfully''"
    by (simp add: AuthService_logout_def)
  have 2: "AuthService_logout (snd (AuthService_logout d i)) i = AuthService_logout d i"
    by (simp add: AuthService_logout_def clear_twice)
  have 3: "\<forall>u \<in> set (User (snd (AuthService_logout d i))).
             user_id u = i \<longrightarrow> user_refreshToken u = None"
    using cleared_slots by (simp add: AuthService_logout_def)
  have 4: "(\<forall>u \<in> set (User d). user_id u \<noteq> i) \<longrightarrow> snd (AuthService_logout d i) = d"
    by (simp add: AuthService_logout_def clear_absent)
  from 1 2 3 4 show ?thesis by blast
qed

theorem logout_idempotent_witness:
  "fst (AuthService_logout sample_db_logged_in 1) = ''Logged out successfully'' \<and>
   AuthService_logout (snd (AuthService_logout sample_db_logged_in 1)) 1 =
     AuthService_logout sample_db_logged_in 1 \<and>
   snd (AuthService_logout sample_db_logged_in 1) = sample_db \<and>
   user_id alice \<noteq> 7 \<and> user_id bob \<noteq> 7 \<and>
   AuthService_logout sample_db 7 = (''Logged out successfully'', sample_db)"
  using logout_idempotent [of sample_db_logged_in 1] logout_idempotent [of sample_db 7]
  by (simp add: AuthService_logout_def clearRefreshToken_def sample_defs)

text \<open>
  C10. \<open>logout\<close> changes nothing but the slot of the rows with the given id, which it
  empties: the table keeps its length and its insert counter, every row keeps its id,
  email, password hash and role, and every row with another id is left as it was.
\<close>

theorem logout_frame:
  "length (User (snd (AuthService_logout d i))) = length (User d) \<and>
   AUTO_INCREMENT (snd (AuthService_logout d i)) = AUTO_INCREMENT d \<and>
   (\<forall>n < length (User d).
      user_id (User (snd (AuthService_logout d i)) ! n) = user_id (User d ! n) \<and>
      user_email (User (snd (AuthService_logout d i)) ! n) = user_email (User d ! n) \<and>
      user_password (User (snd (AuthService_logout d i)) ! n) = user_password (User d ! n) \<and>
      user_rolId (User (snd (AuthService_logout d i)) ! n) = user_rolId (User d ! n) \<and>
      (user_id (User d ! n) = i \<longrightarrow>
         user_refreshToken (User (snd (AuthService_logout d i)) ! n) = None) \<and>
      (user_id (User d ! n) \<noteq> i \<longrightarrow>
         User (snd (AuthService_logout d i)) ! n = User d ! n))"
proof -
  let ?d' = "snd (AuthService_logout d i)"
  have rows: "User ?d' =
      map (\<lambda>u. if user_id u = i then u\<lparr>user_refreshToken := None\<rparr> else u) (User d)"
    by (simp add: AuthService_logout_def User_clearRefreshToken)
  have counter: "AUTO_INCREMENT ?d' = AUTO_INCREMENT d"
    by (simp add: AuthService_logout_def clearRefreshToken_def)
  have len: "length (User ?d') = length (User d)"
    by (simp add: rows)
  have row: "user_id (User ?d' ! n) = user_id (User d ! n) \<and>
      user_email (User ?d' ! n) = user_email (User d ! n) \<and>
      user_password (User ?d' ! n) = user_password (User d ! n) \<and>
      user_rolId (User ?d' ! n) = user_rolId (User d ! n) \<and>
      (user_id (User d ! n) = i \<longrightarrow> user_refreshToken (User ?d' ! n) = None) \<and>
      (user_id (User d ! n) \<noteq> i \<longrightarrow> User ?d' ! n = User d ! n)"
    if n: "n < length (User d)" for n
  proof (cases "user_id (User d ! n) = i")
    case True
    with n have "User ?d' ! n = (User d ! n)\<lparr>user_refreshToken := None\<rparr>"
      by (simp add: rows)
    with True show ?thesis by simp
  next
    case False
    with n have "User ?d' ! n = User d ! n"
      by (simp add: rows)
    with False show ?thesis by simp
  qed
  from len counter row show ?thesis by blast
qed

theorem logout_frame_witness:
  "length (User sample_db_logged_in) = 2 \<and>
   User sample_db_logged_in ! 0 = alice\<lparr>user_refreshToken := Some alice_refresh\<rparr> \<and>
   User sample_db_logged_in ! 1 = bob \<and>
   user_id alice = 1 \<and> user_id bob \<noteq> 1 \<and>
   User (snd (AuthService_logout sample_db_logged_in 1)) ! 0 = alice \<and>
   User (snd (AuthService_logout sample_db_logged_in 1)) ! 1 = bob \<and>
   length (User (snd (AuthService_logout sample_db_logged_in 1))) = 2 \<and>
   AUTO_INCREMENT (snd (AuthService_logout sample_db_logged_in 1)) = 3"
  using logout_frame [of sample_db_logged_in 1]
  by (simp add: AuthService_logout_def clearRefreshToken_def sample_defs)

text \<open>
  C2. Revocation. In a table whose slots hold their owners' tokens, after \<open>logout\<close> with
  the id of a user every row with that id has an empty slot, and \<open>refresh\<close> with any
  refresh token that was issued to that user (at any time, under any configuration) fails
  with the error \<^verbatim>\<open>Invalid refresh token\<close> and leaves the table as it is.
\<close>

theorem logout_revokes:
  assumes "slots_owned d" and "generateRefreshToken env0 now0 u = Inr t"
  shows "(\<forall>r \<in> set (User (snd (AuthService_logout d (user_id u)))).
            user_id r = user_id u \<longrightarrow> user_refreshToken r = None) \<and>
         AuthService_refreshToken env now (snd (AuthService_logout d (user_id u))) t =
           (Inl (Error ''Invalid refresh token''), snd (AuthService_logout d (user_id u)))"
proof -
  let ?d = "clearRefreshToken d (user_id u)"
  have subject: "token_subject t = Some (user_id u)"
    using assms(2) by (rule generateRefreshToken_subject)
  have own: "slots_owned ?d" using assms(1) by (rule slots_owned_clearRefreshToken)
  have none: "findUserByRefreshToken ?d t = None"
  proof (rule ccontr)
    assume "findUserByRefreshToken ?d t \<noteq> None"
    then obtain r where "findUserByRefreshToken ?d t = Some r" by blast
    then have r: "r \<in> set (User ?d)" and s: "user_refreshToken r = Some t"
      by (simp_all add: findUserByRefreshToken_Some)
    from slots_owned_holder [OF own r s] subject have "user_id r = user_id u" by simp
    with r have "user_refreshToken r = None" by (rule cleared_slots)
    with s show False by simp
  qed
  have 1: "\<forall>r \<in> set (User ?d). user_id r = user_id u \<longrightarrow> user_refreshToken r = None"
    using cleared_slots by blast
  have 2: "AuthService_refreshToken env now ?d t = (Inl (Error ''Invalid refresh token''), ?d)"
    using none by (simp add: AuthService_refreshToken_def)
  from 1 2 show ?thesis by (simp add: AuthService_logout_def)
qed

theorem logout_revokes_witness:
  "slots_owned sample_db_logged_in \<and>
   generateRefreshToken sample_env 1000 alice = Inr alice_refresh \<and>
   snd (AuthService_logout sample_db_logged_in (user_id alice)) = sample_db \<and>
   AuthService_refreshToken sample_env 1001 sample_db alice_refresh =
     (Inl (Error ''Invalid refresh token''), sample_db)"
proof -
  have b: "generateRefreshToken sample_env 1000 alice = Inr alice_refresh"
    by (simp add: eval_defs sample_defs)
  have c: "snd (AuthService_logout sample_db_logged_in (user_id alice)) = sample_db"
    by (simp add: AuthService_logout_def clearRefreshToken_def sample_defs)
  from slots_owned_sample b c logout_revokes [OF slots_owned_sample b, of sample_env 1001]
  show ?thesis by simp
qed

subsection \<open>Refresh\<close>

text \<open>
  C4. When \<open>refresh\<close> finds a row whose slot holds the presented token and the check of
  the token against the refresh secret fails, \<open>refresh\<close> fails with the error of that
  check and the table, so the slot too, is as it was: the new token is saved only after
  the check.
\<close>

theorem refresh_verify_failure_atomic:
  assumes "findUserByRefreshToken d t = Some u"
      and "jwt_verify t (JWT_REFRESH_SECRET env) now = Inl e"
  shows "AuthService_refreshToken env now d t = (Inl e, d)"
  using assms by (simp add: AuthService_refreshToken_def)

theorem refresh_verify_failure_atomic_witness:
  "findUserByRefreshToken sample_db_logged_in alice_refresh =
     Some (alice\<lparr>user_refreshToken := Some alice_refresh\<rparr>) \<and>
   jwt_verify alice_refresh (JWT_REFRESH_SECRET sample_env) 605800 =
     Inl (TokenExpiredError ''jwt expired'') \<and>
   AuthService_refreshToken sample_env 605800 sample_db_logged_in alice_refresh =
     (Inl (TokenExpiredError ''jwt expired''), sample_db_logged_in)"
proof -
  have f: "findUserByRefreshToken sample_db_logged_in alice_refresh =
     Some (alice\<lparr>user_refreshToken := Some alice_refresh\<rparr>)"
    by (simp add: findUserByRefreshToken_def sample_defs)
  have v: "jwt_verify alice_refresh (JWT_REFRESH_SECRET sample_env) 605800 =
     Inl (TokenExpiredError ''jwt expired'')"
    by (simp add: sample_defs)
  from f v refresh_verify_failure_atomic [OF f v] show ?thesis by simp
qed

text \<open>
  C1, as stated: after a successful \<open>refresh\<close> with the token of the slot, a further
  \<open>refresh\<close> with that token fails. It does not hold when the refresh runs in the clock
  second in which the token was issued. \<open>alice\<close> logs in at second 1000; a refresh with
  the issued token in that second succeeds, returns the very same refresh token and
  leaves it in the slot; a further refresh with it, one second later, succeeds again.
\<close>

theorem refresh_rotation_counterexample:
  "AuthService_login sample_env sample_bcrypt 1000 sample_db ''a@b.com'' ''pw123456'' =
     (Inr \<lparr>accessToken = alice_access, refreshToken = alice_refresh,
           login_message = ''Login successful'', login_user = (1, ''a@b.com'', 1)\<rparr>,
      sample_db_logged_in) \<and>
   AuthService_refreshToken sample_env 1000 sample_db_logged_in alice_refresh =
     (Inr \<lparr>accessToken = alice_access, refreshToken = alice_refresh\<rparr>, sample_db_logged_in) \<and>
   AuthService_refreshToken sample_env 1001 sample_db_logged_in alice_refresh =
     (Inr \<lparr>accessToken = alice_access_rotated, refreshToken = alice_refresh_rotated\<rparr>,
      sample_db_rotated)"
  using login_sample refresh_same_second refresh_next_second by simp

text \<open>
  C1, amended. Rotation. In a table whose slots hold their owners' tokens, let a user's
  slot hold \<open>t0\<close> and let \<open>refresh\<close> with \<open>t0\<close> succeed and return the refresh token
  \<open>t1\<close>. Then the user's row holds \<open>t1\<close> afterwards, with no other field changed; if
  \<open>t1\<close> differs from \<open>t0\<close>, every later \<open>refresh\<close> with \<open>t0\<close> fails with the error
  \<^verbatim>\<open>Invalid refresh token\<close> and changes nothing; and \<open>t1\<close> differs from \<open>t0\<close> whenever
  the refresh runs in a clock second other than the one \<open>t0\<close> was issued in.
\<close>

theorem refresh_rotation:
  assumes own: "slots_owned d"
      and u: "u \<in> set (User d)" and slot: "user_refreshToken u = Some t0"
      and ok: "AuthService_refreshToken env now d t0 = (Inr p, d')"
  shows "u\<lparr>user_refreshToken := Some (refreshToken p)\<rparr> \<in> set (User d') \<and>
         (refreshToken p \<noteq> t0 \<longrightarrow>
            AuthService_refreshToken env now' d' t0 =
              (Inl (Error ''Invalid refresh token''), d')) \<and>
         (token_iat t0 \<noteq> Some now \<longrightarrow> refreshToken p \<noteq> t0)"
proof -
  from ok obtain v where v: "findUserByRefreshToken d t0 = Some v"
    and r: "generateRefreshToken env now v = Inr (refreshToken p)"
    and d': "d' = saveRefreshToken d (user_id v) (refreshToken p)"
    by (rule refreshToken_Inr)
  from v have vin: "v \<in> set (User d)" and vslot: "user_refreshToken v = Some t0"
    by (simp_all add: findUserByRefreshToken_Some)
  from slots_owned_holder [OF own u slot] slots_owned_holder [OF own vin vslot]
  have same: "user_id u = user_id v" by simp
  have 1: "u\<lparr>user_refreshToken := Some (refreshToken p)\<rparr> \<in> set (User d')"
    unfolding d' using u same by (rule saved_row)
  have 2: "AuthService_refreshToken env now' d' t0 = (Inl (Error ''Invalid refresh token''), d')"
    if ne: "refreshToken p \<noteq> t0"
  proof -
    have "user_refreshToken w \<noteq> Some t0" if w: "w \<in> set (User d')" for w
    proof
      assume h: "user_refreshToken w = Some t0"
      from w have "(user_id w = user_id v \<and> user_refreshToken w = Some (refreshToken p)) \<or>
                   (user_id w \<noteq> user_id v \<and> w \<in> set (User d))"
        unfolding d' by (rule saved_rows_cases)
      then show False
      proof
        assume "user_id w = user_id v \<and> user_refreshToken w = Some (refreshToken p)"
        with h ne show False by simp
      next
        assume a: "user_id w \<noteq> user_id v \<and> w \<in> set (User d)"
        then have "token_subject t0 = Some (user_id w)"
          using slots_owned_holder [OF own _ h] by simp
        with slots_owned_holder [OF own vin vslot] a show False by simp
      qed
    qed
    then have "findUserByRefreshToken d' t0 = None"
      by (simp add: findUserByRefreshToken_None_iff)
    then show ?thesis by (simp add: AuthService_refreshToken_def)
  qed
  have 3: "refreshToken p \<noteq> t0" if "token_iat t0 \<noteq> Some now"
  proof
    assume "refreshToken p = t0"
    with generateRefreshToken_Inr [OF r] have "token_iat t0 = Some now" by auto
    with that show False by simp
  qed
  from 1 2 3 show ?thesis by blast
qed

theorem refresh_rotation_witness:
  "slots_owned sample_db_logged_in \<and>
   alice\<lparr>user_refreshToken := Some alice_refresh\<rparr> \<in> set (User sample_db_logged_in) \<and>
   AuthService_refreshToken sample_env 1001 sample_db_logged_in alice_refresh =
     (Inr \<lparr>accessToken = alice_access_rotated, refreshToken = alice_refresh_rotated\<rparr>,
      sample_db_rotated) \<and>
   alice\<lparr>user_refreshToken := Some alice_refresh_rotated\<rparr> \<in> set (User sample_db_rotated) \<and>
   token_iat alice_refresh \<noteq> Some 1001 \<and>
   alice_refresh_rotated \<noteq> alice_refresh \<and>
   AuthService_refreshToken sample_env 1002 sample_db_rotated alice_refresh =
     (Inl (Error ''Invalid refresh token''), sample_db_rotated)"
proof -
  have b: "alice\<lparr>user_refreshToken := Some alice_refresh\<rparr> \<in> set (User sample_db_logged_in)"
    by (simp add: sample_defs)
  have c: "user_refreshToken (alice\<lparr>user_refreshToken := Some alice_refresh\<rparr>) =
             Some alice_refresh"
    by simp
  have i: "token_iat alice_refresh \<noteq> Some 1001" by (simp add: sample_defs)
  from slots_owned_sample b i refresh_next_second
    refresh_rotation [OF slots_owned_sample b c refresh_next_second, of 1002]
  show ?thesis by simp
qed

subsection \<open>Login\<close>

text \<open>
  C3. A login with an email that no row has and a login with the email of a row and a
  password that does not match its hash fail with the same thrown value, the error
  \<^verbatim>\<open>Invalid credentials\<close>, leave the table as it is, and are answered alike.
\<close>

theorem login_generic_failure:
  assumes "findByEmail d1 e1 = None"
      and "findByEmail d2 e2 = Some u"
      and "\<not> bcrypt_compare bc p2 (user_password u)"
  shows "AuthService_login env bc now1 d1 e1 p1 = (Inl (Error ''Invalid credentials''), d1) \<and>
         AuthService_login env bc now2 d2 e2 p2 = (Inl (Error ''Invalid credentials''), d2) \<and>
         fst (AuthController_login env bc now1 d1 e1 p1) =
           fst (AuthController_login env bc now2 d2 e2 p2)"
  using assms by (simp add: AuthService_login_def AuthController_login_def)

theorem login_generic_failure_witness:
  "findByEmail sample_db ''nobody@b.com'' = None \<and>
   findByEmail sample_db ''A@B.com'' = Some alice \<and>
   \<not> bcrypt_compare sample_bcrypt ''wrong'' (user_password alice) \<and>
   AuthService_login sample_env sample_bcrypt 1000 sample_db ''nobody@b.com'' ''pw123456'' =
     (Inl (Error ''Invalid credentials''), sample_db) \<and>
   AuthService_login sample_env sample_bcrypt 1000 sample_db ''A@B.com'' ''wrong'' =
     (Inl (Error ''Invalid credentials''), sample_db)"
proof -
  have c: "\<not> bcrypt_compare sample_bcrypt ''wrong'' (user_password alice)"
    by (simp add: sample_defs)
  from findByEmail_sample_unknown findByEmail_sample_known c
    login_generic_failure [OF findByEmail_sample_unknown findByEmail_sample_known c,
      of sample_env 1000 "''pw123456''" 1000]
  show ?thesis by simp
qed

subsection \<open>Register\<close>

text \<open>
  C6. In a table with no two rows of the same email, when a row has the lower-case form
  of \<open>e\<close> as its email, \<open>register\<close> with any email of the same lower-case form fails
  with the error \<^verbatim>\<open>Email already in use\<close>, writes nothing, and that row is afterwards
  the one row with this email.
\<close>

theorem register_conflict:
  assumes "u \<in> set (User d)" and "user_email u = toLowerCase e"
      and "toLowerCase (body_email b) = toLowerCase e"
      and "distinct (map user_email (User d))"
  shows "AuthService_register bc salt d b = (Inl (Error ''Email already in use''), d) \<and>
         filter (\<lambda>r. user_email r = toLowerCase e)
           (User (snd (AuthService_register bc salt d b))) = [u]"
proof -
  have "findByEmail d (body_email b) \<noteq> None"
    using assms(1-3) by (auto simp: findByEmail_None_iff)
  then have r: "AuthService_register bc salt d b = (Inl (Error ''Email already in use''), d)"
    by (auto simp: AuthService_register_def)
  have "filter (\<lambda>r. user_email r = user_email u) (User d) = [u]"
    using assms(4,1) by (rule filter_distinct_key)
  with r assms(2) show ?thesis by simp
qed

theorem register_conflict_witness:
  "alice \<in> set (User sample_db) \<and> user_email alice = toLowerCase ''a@b.com'' \<and>
   toLowerCase ''A@B.Com'' = toLowerCase ''a@b.com'' \<and>
   distinct (map user_email (User sample_db)) \<and>
   AuthService_register sample_bcrypt ''zz'' sample_db
       \<lparr>body_email = ''A@B.Com'', body_password = ''other'', body_rolId = None\<rparr> =
     (Inl (Error ''Email already in use''), sample_db) \<and>
   filter (\<lambda>r. user_email r = toLowerCase ''a@b.com'')
     (User (snd (AuthService_register sample_bcrypt ''zz'' sample_db
        \<lparr>body_email = ''A@B.Com'', body_password = ''other'', body_rolId = None\<rparr>))) = [alice]"
proof -
  have a: "alice \<in> set (User sample_db)" by (simp add: sample_defs)
  have b: "user_email alice = toLowerCase ''a@b.com''"
    by (simp add: toLowerCase_def lower_char_def sample_defs)
  have c: "toLowerCase (body_email \<lparr>body_email = ''A@B.Com'', body_password = ''other'',
             body_rolId = None\<rparr>) = toLowerCase ''a@b.com''"
    by (simp add: toLowerCase_def lower_char_def)
  have d: "distinct (map user_email (User sample_db))" by (simp add: sample_defs)
  from a b c d register_conflict [OF a b c d, of sample_bcrypt "''zz''"]
  show ?thesis by auto
qed

text \<open>
  C5. \<open>register\<close> with an email that no row has is to hash the password, insert a row
  and return the id and the email. The code does not: on the empty table,
  \<^verbatim>\<open>register({email: "a@b.com", password: "pw123456", rolId: 1})\<close> throws
  \<^verbatim>\<open>ReferenceError: pool is not defined\<close>, inserts nothing, and the request is
  answered with status 500.
\<close>

theorem register_throws_ReferenceError:
  "AuthService_register sample_bcrypt ''zz'' empty_db
       \<lparr>body_email = ''a@b.com'', body_password = ''pw123456'', body_rolId = Some 1\<rparr> =
     (Inl (ReferenceError ''pool is not defined''), empty_db) \<and>
   AuthController_register sample_bcrypt ''zz'' empty_db
       \<lparr>body_email = ''a@b.com'', body_password = ''pw123456'', body_rolId = Some 1\<rparr> =
     (internal_server_error, empty_db)"
  by (simp add: AuthService_register_def AuthController_register_def AuthService_requires_def
        findByEmail_def errorHandler_def send_json_last_def send_json_def
        internal_server_error_def empty_db_def)

subsection \<open>The token issuer\<close>

text \<open>
  C7. With both secrets set, not empty and distinct: \<open>generateAccessToken\<close> gives the
  token over exactly the claims \<^verbatim>\<open>id\<close>, \<^verbatim>\<open>email\<close>, \<^verbatim>\<open>rolId\<close> of the user, signed with
  the access secret and expiring 15 minutes after its issue; \<open>generateRefreshToken\<close> gives
  the token over exactly \<^verbatim>\<open>id\<close> and \<^verbatim>\<open>email\<close>, signed with the refresh secret and
  expiring 7 days after its issue; and an access token never passes the check that
  \<open>refresh\<close> makes, against the refresh secret: at any time and on any table \<open>refresh\<close>
  with it fails and changes nothing.
\<close>

theorem token_issuer_contract:
  assumes ka: "JWT_SECRET env = Some ka" "ka \<noteq> []"
      and kr: "JWT_REFRESH_SECRET env = Some kr" "kr \<noteq> []"
      and distinct: "ka \<noteq> kr"
  shows "generateAccessToken env now u =
           Inr (Jwt [(''id'', CNum (user_id u)), (''email'', CStr (user_email u)),
                     (''rolId'', CNum (user_rolId u))] now (now + 15 * 60) ka) \<and>
         generateRefreshToken env now u =
           Inr (Jwt [(''id'', CNum (user_id u)), (''email'', CStr (user_email u))]
                  now (now + 7 * 24 * 60 * 60) kr) \<and>
         (\<forall>a. generateAccessToken env now u = Inr a \<longrightarrow>
            jwt_verify a (JWT_REFRESH_SECRET env) now' =
              Inl (JsonWebTokenError ''invalid signature'') \<and>
            snd (AuthService_refreshToken env now' d a) = d \<and>
            (fst (AuthService_refreshToken env now' d a) =
               Inl (Error ''Invalid refresh token'') \<or>
             fst (AuthService_refreshToken env now' d a) =
               Inl (JsonWebTokenError ''invalid signature'')))"
proof -
  let ?a = "Jwt [(''id'', CNum (user_id u)), (''email'', CStr (user_email u)),
                 (''rolId'', CNum (user_rolId u))] now (now + 15 * 60) ka"
  have 1: "generateAccessToken env now u = Inr ?a"
    using ka by (simp add: generateAccessToken_def jwt_sign_def timespan_15m)
  have 2: "generateRefreshToken env now u =
           Inr (Jwt [(''id'', CNum (user_id u)), (''email'', CStr (user_email u))]
                  now (now + 7 * 24 * 60 * 60) kr)"
    using kr by (simp add: generateRefreshToken_def jwt_sign_def timespan_7d)
  have v: "jwt_verify ?a (JWT_REFRESH_SECRET env) now' =
             Inl (JsonWebTokenError ''invalid signature'')"
    using kr distinct by simp
  have s: "snd (AuthService_refreshToken env now' d ?a) = d"
    using v by (simp add: AuthService_refreshToken_def split: option.splits)
  have f: "fst (AuthService_refreshToken env now' d ?a) =
             Inl (Error ''Invalid refresh token'') \<or>
           fst (AuthService_refreshToken env now' d ?a) =
             Inl (JsonWebTokenError ''invalid signature'')"
    using v by (simp add: AuthService_refreshToken_def split: option.splits)
  from 1 2 v s f show ?thesis by simp
qed

theorem token_issuer_contract_witness:
  "JWT_SECRET sample_env = Some ''access-key'' \<and>
   JWT_REFRESH_SECRET sample_env = Some ''refresh-key'' \<and>
   ''access-key'' \<noteq> ''refresh-key'' \<and>
   generateAccessToken sample_env 1000 alice = Inr alice_access \<and>
   generateRefreshToken sample_env 1000 alice = Inr alice_refresh \<and>
   jwt_verify alice_access (JWT_REFRESH_SECRET sample_env) 1001 =
     Inl (JsonWebTokenError ''invalid signature'') \<and>
   AuthService_refreshToken sample_env 1001 sample_db_logged_in alice_access =
     (Inl (Error ''Invalid refresh token''), sample_db_logged_in)"
proof -
  have a: "JWT_SECRET sample_env = Some ''access-key''" by (simp add: sample_defs)
  have b: "JWT_REFRESH_SECRET sample_env = Some ''refresh-key''" by (simp add: sample_defs)
  have n: "''access-key'' \<noteq> []" "''refresh-key'' \<noteq> []"
    "''access-key'' \<noteq> ''refresh-key''"
    by simp_all
  have r: "AuthService_refreshToken sample_env 1001 sample_db_logged_in alice_access =
     (Inl (Error ''Invalid refresh token''), sample_db_logged_in)"
    by (simp add: AuthService_refreshToken_def findUserByRefreshToken_def sample_defs)
  from a b r
    token_issuer_contract [OF a n(1) b n(2) n(3), of 1000 alice 1001 sample_db_logged_in]
  show ?thesis by (simp add: sample_defs)
qed

subsection \<open>The error handler\<close>

text \<open>
  C8, as stated: a login that fails for bad credentials is answered with status 401, a
  registration of a used email with 400 or 409. It does not hold: the login of \<open>alice\<close>
  with a wrong password and the registration of her email again are both answered with
  status 500 and the message \<^verbatim>\<open>Internal Server Error\<close>.
\<close>

theorem boundary_status_counterexample:
  "AuthController_login sample_env sample_bcrypt 1000 sample_db ''a@b.com'' ''wrong'' =
     (\<lparr>res_status = 500,
       res_body = Json (JObj [(''status'', JStr ''error''),
                              (''message'', JStr ''Internal Server Error'')])\<rparr>, sample_db) \<and>
   res_status (fst (AuthController_login sample_env sample_bcrypt 1000 sample_db
                      ''a@b.com'' ''wrong'')) \<noteq> 401 \<and>
   AuthController_register sample_bcrypt ''zz'' sample_db
       \<lparr>body_email = ''A@B.com'', body_password = ''pw'', body_rolId = None\<rparr> =
     (\<lparr>res_status = 500,
       res_body = Json (JObj [(''status'', JStr ''error''),
                              (''message'', JStr ''Internal Server Error'')])\<rparr>, sample_db) \<and>
   res_status (fst (AuthController_register sample_bcrypt ''zz'' sample_db
       \<lparr>body_email = ''A@B.com'', body_password = ''pw'', body_rolId = None\<rparr>)) \<noteq> 400 \<and>
   res_status (fst (AuthController_register sample_bcrypt ''zz'' sample_db
       \<lparr>body_email = ''A@B.com'', body_password = ''pw'', body_rolId = None\<rparr>)) \<noteq> 409"
  by (simp add: AuthController_login_def AuthService_login_def AuthController_register_def
        AuthService_register_def errorHandler_def send_json_last_def send_json_def
        findByEmail_def toLowerCase_def lower_char_def sample_defs)

lemma errorHandler_no_status:
  "statusCode err = None \<or> statusCode err = Some 0 \<Longrightarrow>
     errorHandler err = internal_server_error"
  by (auto simp: errorHandler_def send_json_last_def send_json_def internal_server_error_def)

lemma errorHandler_no_status_code:
  assumes "statusCode err = Some c" and "0 < c \<and> c < 100 \<or> 999 < c"
  shows "errorHandler err = \<lparr>res_status = 500, res_body = Error_page\<rparr>"
proof -
  from assms(2) have "c \<noteq> 0" and "c < 100 \<or> 999 < c" by auto
  with assms(1) show ?thesis
    by (simp add: errorHandler_def send_json_last_def send_json_def)
qed

lemma errorHandler_no_body:
  assumes "statusCode err = Some c"
      and "100 \<le> c \<and> c < 200 \<or> c = 204 \<or> c = 205 \<or> c = 304"
  shows "errorHandler err = \<lparr>res_status = c, res_body = No_body\<rparr>"
proof -
  from assms(2) have "c \<noteq> 0" and "\<not> (c < 100 \<or> 999 < c)"
    and "c < 200 \<or> c = 204 \<or> c = 205 \<or> c = 304"
    by auto
  with assms(1) show ?thesis
    by (simp add: errorHandler_def send_json_last_def send_json_def)
qed

lemma errorHandler_own_status:
  assumes "statusCode err = Some c"
      and "200 \<le> c \<and> c \<le> 999 \<and> c \<noteq> 204 \<and> c \<noteq> 205 \<and> c \<noteq> 304"
  shows "errorHandler err =
           \<lparr>res_status = c,
            res_body = Json (JObj [(''status'', JStr ''error''),
                                   (''message'', JStr (message err))])\<rparr>"
proof -
  from assms(2) have "c \<noteq> 0" and "\<not> (c < 100 \<or> 999 < c)"
    and "\<not> (c < 200 \<or> c = 204 \<or> c = 205 \<or> c = 304)"
    by auto
  with assms(1) show ?thesis
    by (simp add: errorHandler_def send_json_last_def send_json_def)
qed

text \<open>
  C8, amended. A login that fails for bad credentials (no row with the email, or a
  password that does not match) throws the plain error \<^verbatim>\<open>Invalid credentials\<close>, a
  registration of an email a row has the plain error \<^verbatim>\<open>Email already in use\<close>, neither
  with a status code; the controller method hands it to the error handler, the answer is
  status 500 with the generic JSON message \<^verbatim>\<open>Internal Server Error\<close>, and nothing is
  written. The handler answers so every thrown value whose status code is missing or
  zero. A status code from 1 to 99 or above 999 is answered with 500 and Express's own
  page; one of 1xx, 204, 205, 304 with that status and no body; any other from 200 to 999
  with that status and the thrown value's own message as JSON. \<^verbatim>\<open>applyRoutes\<close> mounts no
  auth router: these are the answers of the controller methods joined to the handler, as
  \<^verbatim>\<open>Auth.route.js\<close> and \<^verbatim>\<open>app.js\<close> join them, and no path of the application leads
  to them.
\<close>

theorem boundary_status_mapping:
  "((findByEmail d e = None \<or>
     (\<exists>u. findByEmail d e = Some u \<and> \<not> bcrypt_compare bc p (user_password u))) \<longrightarrow>
      AuthService_login env bc now d e p = (Inl (Error ''Invalid credentials''), d) \<and>
      AuthController_login env bc now d e p = (internal_server_error, d)) \<and>
   (findByEmail d (body_email b) \<noteq> None \<longrightarrow>
      AuthService_register bc salt d b = (Inl (Error ''Email already in use''), d) \<and>
      AuthController_register bc salt d b = (internal_server_error, d)) \<and>
   statusCode (Error ''Invalid credentials'') = None \<and>
   statusCode (Error ''Email already in use'') = None \<and>
   (statusCode err = None \<or> statusCode err = Some 0 \<longrightarrow>
      errorHandler err = internal_server_error) \<and>
   (\<forall>c. statusCode err = Some c \<and> (0 < c \<and> c < 100 \<or> 999 < c) \<longrightarrow>
      errorHandler err = \<lparr>res_status = 500, res_body = Error_page\<rparr>) \<and>
   (\<forall>c. statusCode err = Some c \<and> (100 \<le> c \<and> c < 200 \<or> c = 204 \<or> c = 205 \<or> c = 304) \<longrightarrow>
      errorHandler err = \<lparr>res_status = c, res_body = No_body\<rparr>) \<and>
   (\<forall>c. statusCode err = Some c \<and>
        (200 \<le> c \<and> c \<le> 999 \<and> c \<noteq> 204 \<and> c \<noteq> 205 \<and> c \<noteq> 304) \<longrightarrow>
      errorHandler err =
        \<lparr>res_status = c,
         res_body = Json (JObj [(''status'', JStr ''error''),
                                (''message'', JStr (message err))])\<rparr>) \<and>
   Auth_route \<notin> snd ` set applyRoutes"
proof -
  have plain: "errorHandler (Error m) = internal_server_error" for m
    by (rule errorHandler_no_status) simp
  have 1: "AuthService_login env bc now d e p = (Inl (Error ''Invalid credentials''), d) \<and>
           AuthController_login env bc now d e p = (internal_server_error, d)"
    if "findByEmail d e = None \<or>
        (\<exists>u. findByEmail d e = Some u \<and> \<not> bcrypt_compare bc p (user_password u))"
  proof -
    from that
    have s: "AuthService_login env bc now d e p = (Inl (Error ''Invalid credentials''), d)"
      by (auto simp: AuthService_login_def)
    then show ?thesis by (simp add: AuthController_login_def plain)
  qed
  have 2: "AuthService_register bc salt d b = (Inl (Error ''Email already in use''), d) \<and>
           AuthController_register bc salt d b = (internal_server_error, d)"
    if "findByEmail d (body_email b) \<noteq> None"
  proof -
    from that
    have s: "AuthService_register bc salt d b = (Inl (Error ''Email already in use''), d)"
      by (auto simp: AuthService_register_def)
    then show ?thesis by (simp add: AuthController_register_def plain)
  qed
  have 3: "statusCode (Error ''Invalid credentials'') = None"
    and 4: "statusCode (Error ''Email already in use'') = None"
    by simp_all
  have 5: "Auth_route \<notin> snd ` set applyRoutes"
    by (simp add: applyRoutes_def)
  from 1 2 3 4 5 errorHandler_no_status [of err] errorHandler_no_status_code [of err]
    errorHandler_no_body [of err] errorHandler_own_status [of err]
  show ?thesis by blast
qed

theorem boundary_status_mapping_witness:
  "findByEmail sample_db ''nobody@b.com'' = None \<and>
   AuthService_login sample_env sample_bcrypt 1000 sample_db ''nobody@b.com'' ''pw'' =
     (Inl (Error ''Invalid credentials''), sample_db) \<and>
   AuthController_login sample_env sample_bcrypt 1000 sample_db ''nobody@b.com'' ''pw'' =
     (internal_server_error, sample_db) \<and>
   findByEmail sample_db ''A@B.com'' = Some alice \<and>
   AuthService_register sample_bcrypt ''zz'' sample_db
       \<lparr>body_email = ''A@B.com'', body_password = ''pw'', body_rolId = None\<rparr> =
     (Inl (Error ''Email already in use''), sample_db) \<and>
   AuthController_register sample_bcrypt ''zz'' sample_db
       \<lparr>body_email = ''A@B.com'', body_password = ''pw'', body_rolId = None\<rparr> =
     (internal_server_error, sample_db) \<and>
   statusCode (Error ''Invalid credentials'') = None \<and>
   errorHandler (Error ''Invalid credentials'') = internal_server_error \<and>
   statusCode (Thrown 0 ''zero'') = Some 0 \<and>
   errorHandler (Thrown 0 ''zero'') = internal_server_error \<and>
   statusCode (Thrown 99 ''none'') = Some 99 \<and>
   errorHandler (Thrown 99 ''none'') = \<lparr>res_status = 500, res_body = Error_page\<rparr> \<and>
   statusCode (Thrown 204 ''empty'') = Some 204 \<and>
   errorHandler (Thrown 204 ''empty'') = \<lparr>res_status = 204, res_body = No_body\<rparr> \<and>
   statusCode (Thrown 400 ''Invalid input'') = Some 400 \<and>
   errorHandler (Thrown 400 ''Invalid input'') =
     \<lparr>res_status = 400,
      res_body = Json (JObj [(''status'', JStr ''error''),
                             (''message'', JStr ''Invalid input'')])\<rparr>"
  using findByEmail_sample_unknown findByEmail_sample_known
    boundary_status_mapping [of sample_db "''nobody@b.com''" sample_bcrypt "''pw''" sample_env
      1000 "\<lparr>body_email = ''A@B.com'', body_password = ''pw'', body_rolId = None\<rparr>" "''zz''"
      "Error ''Invalid credentials''"]
    boundary_status_mapping [of sample_db "''nobody@b.com''" sample_bcrypt "''pw''" sample_env
      1000 "\<lparr>body_email = ''A@B.com'', body_password = ''pw'', body_rolId = None\<rparr>" "''zz''"
      "Thrown 0 ''zero''"]
    boundary_status_mapping [of sample_db "''nobody@b.com''" sample_bcrypt "''pw''" sample_env
      1000 "\<lparr>body_email = ''A@B.com'', body_password = ''pw'', body_rolId = None\<rparr>" "''zz''"
      "Thrown 99 ''none''"]
    boundary_status_mapping [of sample_db "''nobody@b.com''" sample_bcrypt "''pw''" sample_env
      1000 "\<lparr>body_email = ''A@B.com'', body_password = ''pw'', body_rolId = None\<rparr>" "''zz''"
      "Thrown 204 ''empty''"]
    boundary_status_mapping [of sample_db "''nobody@b.com''" sample_bcrypt "''pw''" sample_env
      1000 "\<lparr>body_email = ''A@B.com'', body_password = ''pw'', body_rolId = None\<rparr>" "''zz''"
      "Thrown 400 ''Invalid input''"]
  by simp

end
